theory Spec2Isabelle
  imports Main
begin

section \<open>Authentication forms of the sample platform (mod\_auth/forms.py)\<close>

text \<open>
  The module declares the forms of the authentication pages and the validators
  attached to their fields. A validator is called with the form and with the
  field it validates; it returns nothing and rejects a value by raising
  \<^verbatim>\<open>ValidationError\<close> with a message. Here a validator is a function to
  \<open>error + unit\<close>: \<open>Inr ()\<close> is the normal return, \<open>Inl e\<close> the exception raised.
\<close>

subsection \<open>Data\<close>

text \<open>
  The submitted value of a field is a Python \<^verbatim>\<open>str\<close>. The validators only
  take its length and compare it for equality, so a \<open>string\<close> of the model stands
  for the sequence of code points, one \<open>char\<close> for each.
\<close>

record Field =
  data :: string

text \<open>
  A row of the user table. \<open>user_password\<close> is the stored hash; the columns carry
  the prefix \<open>user_\<close> since \<open>id\<close> is a constant of HOL and the account form has
  fields called name and email as well.
\<close>

record User =
  user_id :: int
  user_name :: string
  user_email :: string
  user_password :: string

text \<open>
  The settings table \<^verbatim>\<open>config\<close> is imported from the module \<^verbatim>\<open>run\<close>, which
  is not part of the sources. The two entries that \<^verbatim>\<open>valid_password\<close> reads
  are parameters of the model, as the integers that \<^verbatim>\<open>int(config[...])\<close> yields.
\<close>

record config =
  MIN_PWD_LEN :: int
  MAX_PWD_LEN :: int

text \<open>
  The exceptions of the module: the \<^verbatim>\<open>ValidationError\<close> that the validators
  raise with their message, and the \<^verbatim>\<open>AttributeError\<close> of Python for reading
  an attribute of \<^verbatim>\<open>None\<close>.
\<close>

datatype error = ValidationError string | AttributeError string

text \<open>
  The account form. \<open>user\<close> is the object given to the constructor, or \<open>None\<close>.
  The validator of the repeated new password tests the attribute \<open>email\<close> against
  \<^verbatim>\<open>None\<close>, so the attribute is optional in the model.
\<close>

record AccountForm =
  user :: "User option"
  current_password :: Field
  new_password :: Field
  new_password_repeat :: Field
  name :: Field
  email :: "Field option"

record CompleteSignupForm =
  signup_name :: Field
  signup_password :: Field
  signup_password_repeat :: Field

record CompleteResetForm =
  reset_password :: Field
  reset_password_repeat :: Field

subsection \<open>Formatting integers\<close>

text \<open>
  The f-string of \<^verbatim>\<open>valid_password\<close> formats three integers in decimal, as
  \<^verbatim>\<open>str\<close> does: no leading zeros, a minus sign for a negative number.
\<close>

definition digit_char :: "nat \<Rightarrow> char" where
  "digit_char d = ''0123456789'' ! d"

function str_nat :: "nat \<Rightarrow> string" where
  "str_nat n = (if n < 10 then [digit_char n] else str_nat (n div 10) @ [digit_char (n mod 10)])"
  by pat_completeness auto
termination
  by (relation "measure (\<lambda>n. n)") auto

declare str_nat.simps [simp del]

definition str_int :: "int \<Rightarrow> string" where
  "str_int i = (if i < 0 then CHR ''-'' # str_nat (nat (- i)) else str_nat (nat i))"

subsection \<open>The validators shared by the forms\<close>

text \<open>
  \<^verbatim>\<open>valid_password(form, field)\<close>: the form is not used. The empty password is
  rejected first, then a length outside of the configured range.
\<close>

definition valid_password :: "config \<Rightarrow> 'form \<Rightarrow> Field \<Rightarrow> error + unit" where
  "valid_password cfg form field =
     (let min_pwd_len = MIN_PWD_LEN cfg;
          max_pwd_len = MAX_PWD_LEN cfg;
          pass_size = int (length (data field))
      in if pass_size = 0 then Inl (ValidationError ''new password cannot be empty'')
         else if pass_size < min_pwd_len \<or> pass_size > max_pwd_len then
           Inl (ValidationError
             (''Password needs to be between '' @ str_int min_pwd_len @ '' and '' @ str_int max_pwd_len
                @ '' characters long (you entered '' @ str_int pass_size @ '')''))
         else Inr ())"

text \<open>
  The user table is the list of its rows, in the order in which the database returns
  them. \<^verbatim>\<open>User.query.filter(c).first()\<close> is the first row that satisfies the
  condition, or \<^verbatim>\<open>None\<close>. The condition compares a column with the submitted
  value; the model compares them as Python compares two strings.
\<close>

definition query_filter_first :: "User list \<Rightarrow> (User \<Rightarrow> bool) \<Rightarrow> User option" where
  "query_filter_first db c = find c db"

text \<open>\<^verbatim>\<open>unique_username(form, field)\<close>: the form is not used.\<close>

definition unique_username :: "User list \<Rightarrow> 'form \<Rightarrow> Field \<Rightarrow> error + unit" where
  "unique_username db form field =
     (let usr = query_filter_first db (\<lambda>u. user_name u = data field)
      in if usr \<noteq> None then Inl (ValidationError ''There is already a user with this name'')
         else Inr ())"

text \<open>
  \<^verbatim>\<open>email_not_in_use(has_user_field)\<close> returns the validator, a closure over the
  flag: \<open>email_not_in_use has_user_field db\<close> is that validator on the table \<open>db\<close>.
  With the flag set it reads \<^verbatim>\<open>form.user.id\<close>, which raises an
  \<^verbatim>\<open>AttributeError\<close> (here with the name of the attribute) when the form
  has no user. The query runs before the three tests of the condition. The variables
  \<^verbatim>\<open>user_id\<close> and \<^verbatim>\<open>user\<close> of the source are \<open>uid\<close> and \<open>usr\<close>.
\<close>

definition email_not_in_use :: "bool \<Rightarrow> User list \<Rightarrow> AccountForm \<Rightarrow> Field \<Rightarrow> error + unit" where
  "email_not_in_use has_user_field db form field =
     (case (if \<not> has_user_field then Inr (- 1)
            else (case user form of
                    None \<Rightarrow> Inl (AttributeError ''id'')
                  | Some u \<Rightarrow> Inr (user_id u))) of
        Inl e \<Rightarrow> Inl e
      | Inr uid \<Rightarrow>
          (case query_filter_first db (\<lambda>u. user_email u = data field) of
             None \<Rightarrow> Inr ()
           | Some usr \<Rightarrow>
               if user_id usr \<noteq> uid \<and> length (data field) > 0
               then Inl (ValidationError ''This address is already in use'')
               else Inr ()))"

subsection \<open>The forms that set a password\<close>

definition CompleteSignupForm_validate_password_repeat ::
    "CompleteSignupForm \<Rightarrow> Field \<Rightarrow> error + unit" where
  "CompleteSignupForm_validate_password_repeat form field =
     (if data field \<noteq> data (signup_password form)
      then Inl (ValidationError ''The password needs to match the new password'')
      else Inr ())"

definition CompleteResetForm_validate_password_repeat ::
    "CompleteResetForm \<Rightarrow> Field \<Rightarrow> error + unit" where
  "CompleteResetForm_validate_password_repeat form field =
     (if data field \<noteq> data (reset_password form)
      then Inl (ValidationError ''The password needs to match the new password'')
      else Inr ())"

subsection \<open>The account form\<close>

text \<open>
  \<^verbatim>\<open>AccountForm.__init__\<close> calls the constructor of the framework's form and
  then stores \<^verbatim>\<open>obj\<close> as the user. \<open>bound\<close> is the form as the framework's
  constructor leaves it, with its fields bound to the submitted values.
\<close>

definition AccountForm_init :: "AccountForm \<Rightarrow> User option \<Rightarrow> AccountForm" where
  "AccountForm_init bound obj = bound\<lparr>user := obj\<rparr>"

text \<open>
  \<^verbatim>\<open>User.is_password_valid\<close> is a method of the user model, which is not part
  of the sources: it is the parameter \<open>is_password_valid\<close>, from the user and the
  candidate password to the verdict.
\<close>

definition validate_current_password ::
    "(User \<Rightarrow> string \<Rightarrow> bool) \<Rightarrow> AccountForm \<Rightarrow> Field \<Rightarrow> error + unit" where
  "validate_current_password is_password_valid form field =
     (case user form of
        None \<Rightarrow> Inl (ValidationError ''User instance not passed to form validation'')
      | Some u \<Rightarrow>
          if \<not> is_password_valid u (data field) then Inl (ValidationError ''Invalid password'')
          else Inr ())"

definition validate_new_password :: "config \<Rightarrow> AccountForm \<Rightarrow> Field \<Rightarrow> error + unit" where
  "validate_new_password cfg form field =
     (if length (data field) = 0 \<and> length (data (new_password_repeat form)) = 0 then Inr ()
      else valid_password cfg form field)"

text \<open>
  In \<^verbatim>\<open>validate_new_password_repeat\<close> the early return is nested in the test of
  the email attribute; the comparison follows in either case.
\<close>

definition validate_new_password_repeat :: "AccountForm \<Rightarrow> Field \<Rightarrow> error + unit" where
  "validate_new_password_repeat form field =
     (let compare =
        (if data field \<noteq> data (new_password form)
         then Inl (ValidationError ''The password needs to match the new password'')
         else Inr ())
      in if email form \<noteq> None then
           (if length (data field) = 0 \<and> length (data (new_password form)) = 0 then Inr ()
            else compare)
         else compare)"

text \<open>
  The validator that the description of the account form gives for the repeated new
  password: skip when both new-password fields are empty, and otherwise reject exactly a
  repeat that differs from the new password. It does not look at the email.
\<close>

definition new_password_repeat_spec :: "AccountForm \<Rightarrow> Field \<Rightarrow> error + unit" where
  "new_password_repeat_spec form field =
     (if length (data field) = 0 \<and> length (data (new_password form)) = 0 then Inr ()
      else if data field \<noteq> data (new_password form)
      then Inl (ValidationError ''The password needs to match the new password'')
      else Inr ())"

section \<open>Properties\<close>

subsection \<open>The query\<close>

lemma query_first_member:
  "query_filter_first db c = Some u \<Longrightarrow> u \<in> set db \<and> c u"
  unfolding query_filter_first_def
  by (induction db) (auto split: if_splits)

lemma query_first_none:
  "query_filter_first db c = None \<longleftrightarrow> (\<forall>u \<in> set db. \<not> c u)"
  unfolding query_filter_first_def
  by (induction db) auto

subsection \<open>Passwords\<close>

text \<open>
  C2, as stated: every password shorter than the minimum or longer than the maximum is
  rejected with the message of the range. The empty password is shorter than a minimum
  of 10 and is rejected with the other message.
\<close>

theorem valid_password_range_counterexample:
  "int (length (data \<lparr>data = ''''\<rparr>)) < MIN_PWD_LEN \<lparr>MIN_PWD_LEN = 10, MAX_PWD_LEN = 500\<rparr>
   \<and> valid_password \<lparr>MIN_PWD_LEN = 10, MAX_PWD_LEN = 500\<rparr> () \<lparr>data = ''''\<rparr>
       = Inl (ValidationError ''new password cannot be empty'')
   \<and> valid_password \<lparr>MIN_PWD_LEN = 10, MAX_PWD_LEN = 500\<rparr> () \<lparr>data = ''''\<rparr>
       \<noteq> Inl (ValidationError
           (''Password needs to be between '' @ str_int 10 @ '' and '' @ str_int 500
              @ '' characters long (you entered '' @ str_int 0 @ '')''))"
  by (simp add: valid_password_def)

text \<open>
  C2, amended: every password that is not empty and whose length is less than
  \<open>MIN_PWD_LEN\<close> or greater than \<open>MAX_PWD_LEN\<close> is rejected with the message of the
  range, which names the minimum, the maximum and the length entered.
\<close>

theorem valid_password_out_of_range:
  assumes "data field \<noteq> []"
    and "int (length (data field)) < MIN_PWD_LEN cfg \<or> int (length (data field)) > MAX_PWD_LEN cfg"
  shows "valid_password cfg form field = Inl (ValidationError
         (''Password needs to be between '' @ str_int (MIN_PWD_LEN cfg) @ '' and ''
            @ str_int (MAX_PWD_LEN cfg) @ '' characters long (you entered ''
            @ str_int (int (length (data field))) @ '')''))"
  using assms by (simp add: valid_password_def)

theorem valid_password_out_of_range_witness:
  "data \<lparr>data = ''short''\<rparr> \<noteq> []
   \<and> int (length (data \<lparr>data = ''short''\<rparr>)) < MIN_PWD_LEN \<lparr>MIN_PWD_LEN = 10, MAX_PWD_LEN = 500\<rparr>
   \<and> valid_password \<lparr>MIN_PWD_LEN = 10, MAX_PWD_LEN = 500\<rparr> () \<lparr>data = ''short''\<rparr>
       = Inl (ValidationError
           ''Password needs to be between 10 and 500 characters long (you entered 5)'')"
  using valid_password_out_of_range
    [of "\<lparr>data = ''short''\<rparr>" "\<lparr>MIN_PWD_LEN = 10, MAX_PWD_LEN = 500\<rparr>" "()"]
  by (simp add: str_int_def str_nat.simps digit_char_def)

text \<open>
  C3. An empty password is rejected with the message of the empty password, whatever
  the configured range is: the test for emptiness comes first, and the result is never
  the message of the range.
\<close>

theorem valid_password_empty:
  assumes "length (data field) = 0"
  shows "valid_password cfg form field = Inl (ValidationError ''new password cannot be empty'')
    \<and> valid_password cfg form field \<noteq> Inl (ValidationError
         (''Password needs to be between '' @ str_int (MIN_PWD_LEN cfg) @ '' and ''
            @ str_int (MAX_PWD_LEN cfg) @ '' characters long (you entered ''
            @ str_int (int (length (data field))) @ '')''))"
  using assms by (simp add: valid_password_def)

theorem valid_password_empty_witness:
  "length (data \<lparr>data = ''''\<rparr>) = 0
   \<and> valid_password \<lparr>MIN_PWD_LEN = 10, MAX_PWD_LEN = 500\<rparr> () \<lparr>data = ''''\<rparr>
       = Inl (ValidationError ''new password cannot be empty'')"
  using valid_password_empty [of "\<lparr>data = ''''\<rparr>" "\<lparr>MIN_PWD_LEN = 10, MAX_PWD_LEN = 500\<rparr>" "()"]
  by simp

text \<open>
  C4. In the form that completes the signup and in the form that completes the reset,
  the validator of the repeated password raises when the repeat differs from the
  password and returns when the two are equal.
\<close>

theorem validate_password_repeat_match:
  "(data field \<noteq> data (signup_password sform) \<longrightarrow>
      CompleteSignupForm_validate_password_repeat sform field
        = Inl (ValidationError ''The password needs to match the new password''))
   \<and> (data field = data (signup_password sform) \<longrightarrow>
      CompleteSignupForm_validate_password_repeat sform field = Inr ())
   \<and> (data field \<noteq> data (reset_password rform) \<longrightarrow>
      CompleteResetForm_validate_password_repeat rform field
        = Inl (ValidationError ''The password needs to match the new password''))
   \<and> (data field = data (reset_password rform) \<longrightarrow>
      CompleteResetForm_validate_password_repeat rform field = Inr ())"
  by (simp add: CompleteSignupForm_validate_password_repeat_def
      CompleteResetForm_validate_password_repeat_def)

theorem validate_password_repeat_match_witness:
  "CompleteSignupForm_validate_password_repeat
      \<lparr>signup_name = \<lparr>data = ''ada''\<rparr>, signup_password = \<lparr>data = ''correct horse''\<rparr>,
       signup_password_repeat = \<lparr>data = ''correct house''\<rparr>\<rparr> \<lparr>data = ''correct house''\<rparr>
     = Inl (ValidationError ''The password needs to match the new password'')
   \<and> CompleteSignupForm_validate_password_repeat
      \<lparr>signup_name = \<lparr>data = ''ada''\<rparr>, signup_password = \<lparr>data = ''correct horse''\<rparr>,
       signup_password_repeat = \<lparr>data = ''correct horse''\<rparr>\<rparr> \<lparr>data = ''correct horse''\<rparr>
     = Inr ()
   \<and> CompleteResetForm_validate_password_repeat
      \<lparr>reset_password = \<lparr>data = ''correct horse''\<rparr>,
       reset_password_repeat = \<lparr>data = ''correct house''\<rparr>\<rparr> \<lparr>data = ''correct house''\<rparr>
     = Inl (ValidationError ''The password needs to match the new password'')
   \<and> CompleteResetForm_validate_password_repeat
      \<lparr>reset_password = \<lparr>data = ''correct horse''\<rparr>,
       reset_password_repeat = \<lparr>data = ''correct horse''\<rparr>\<rparr> \<lparr>data = ''correct horse''\<rparr>
     = Inr ()"
  using validate_password_repeat_match
    [of "\<lparr>data = ''correct house''\<rparr>"
        "\<lparr>signup_name = \<lparr>data = ''ada''\<rparr>, signup_password = \<lparr>data = ''correct horse''\<rparr>,
          signup_password_repeat = \<lparr>data = ''correct house''\<rparr>\<rparr>"
        "\<lparr>reset_password = \<lparr>data = ''correct horse''\<rparr>,
          reset_password_repeat = \<lparr>data = ''correct house''\<rparr>\<rparr>"]
    validate_password_repeat_match
    [of "\<lparr>data = ''correct horse''\<rparr>"
        "\<lparr>signup_name = \<lparr>data = ''ada''\<rparr>, signup_password = \<lparr>data = ''correct horse''\<rparr>,
          signup_password_repeat = \<lparr>data = ''correct horse''\<rparr>\<rparr>"
        "\<lparr>reset_password = \<lparr>data = ''correct horse''\<rparr>,
          reset_password_repeat = \<lparr>data = ''correct horse''\<rparr>\<rparr>"]
  by simp

subsection \<open>User names and email addresses\<close>

text \<open>
  C8. \<open>unique_username\<close> raises its error exactly when some user of the table has the
  submitted name, and returns when no user has it.
\<close>

theorem unique_username_iff:
  "((unique_username db form field
      = Inl (ValidationError ''There is already a user with this name''))
     \<longleftrightarrow> (\<exists>u \<in> set db. user_name u = data field))
   \<and> ((\<not> (\<exists>u \<in> set db. user_name u = data field)) \<longrightarrow>
        unique_username db form field = Inr ())"
proof (cases "query_filter_first db (\<lambda>u. user_name u = data field)")
  case None
  then have "\<not> (\<exists>u \<in> set db. user_name u = data field)"
    by (simp add: query_first_none)
  with None show ?thesis
    by (simp add: unique_username_def)
next
  case (Some usr)
  from query_first_member [OF Some] have "\<exists>u \<in> set db. user_name u = data field"
    by blast
  with Some show ?thesis
    by (simp add: unique_username_def)
qed

theorem unique_username_iff_witness:
  "unique_username
      [\<lparr>user_id = 1, user_name = ''ada'', user_email = ''ada@example.org'', user_password = ''h1''\<rparr>,
       \<lparr>user_id = 2, user_name = ''bob'', user_email = ''bob@example.org'', user_password = ''h2''\<rparr>]
      () \<lparr>data = ''bob''\<rparr>
     = Inl (ValidationError ''There is already a user with this name'')
   \<and> unique_username
      [\<lparr>user_id = 1, user_name = ''ada'', user_email = ''ada@example.org'', user_password = ''h1''\<rparr>,
       \<lparr>user_id = 2, user_name = ''bob'', user_email = ''bob@example.org'', user_password = ''h2''\<rparr>]
      () \<lparr>data = ''eve''\<rparr>
     = Inr ()"
  using unique_username_iff
    [of "[\<lparr>user_id = 1, user_name = ''ada'', user_email = ''ada@example.org'', user_password = ''h1''\<rparr>,
          \<lparr>user_id = 2, user_name = ''bob'', user_email = ''bob@example.org'', user_password = ''h2''\<rparr>]"
        "()" "\<lparr>data = ''bob''\<rparr>"]
    unique_username_iff
    [of "[\<lparr>user_id = 1, user_name = ''ada'', user_email = ''ada@example.org'', user_password = ''h1''\<rparr>,
          \<lparr>user_id = 2, user_name = ''bob'', user_email = ''bob@example.org'', user_password = ''h2''\<rparr>]"
        "()" "\<lparr>data = ''eve''\<rparr>"]
  by simp




text \<open>
  C7. For an empty email the validator never raises a \<open>ValidationError\<close>, whatever
  the table holds, also when a user of the table has the empty email; and it returns
  normally unless it was built with the flag set and the form has no user.
\<close>

theorem email_not_in_use_empty:
  assumes "length (data field) = 0"
  shows "(\<forall>msg. email_not_in_use has_user_field db form field \<noteq> Inl (ValidationError msg))
    \<and> ((has_user_field \<longrightarrow> user form \<noteq> None) \<longrightarrow>
          email_not_in_use has_user_field db form field = Inr ())"
  using assms
  by (auto simp: email_not_in_use_def split: option.splits)

theorem email_not_in_use_empty_witness:
  "length (data \<lparr>data = ''''\<rparr>) = 0
   \<and> email_not_in_use True
      [\<lparr>user_id = 2, user_name = ''bob'', user_email = '''', user_password = ''h2''\<rparr>,
       \<lparr>user_id = 1, user_name = ''ada'', user_email = ''ada@example.org'', user_password = ''h1''\<rparr>]
      \<lparr>user = Some \<lparr>user_id = 1, user_name = ''ada'', user_email = ''ada@example.org'',
                     user_password = ''h1''\<rparr>,
       current_password = \<lparr>data = ''secret''\<rparr>, new_password = \<lparr>data = ''''\<rparr>,
       new_password_repeat = \<lparr>data = ''''\<rparr>, name = \<lparr>data = ''ada''\<rparr>,
       email = Some \<lparr>data = ''''\<rparr>\<rparr>
      \<lparr>data = ''''\<rparr>
     = Inr ()"
  using email_not_in_use_empty
    [of "\<lparr>data = ''''\<rparr>" True
        "[\<lparr>user_id = 2, user_name = ''bob'', user_email = '''', user_password = ''h2''\<rparr>,
          \<lparr>user_id = 1, user_name = ''ada'', user_email = ''ada@example.org'', user_password = ''h1''\<rparr>]"
        "\<lparr>user = Some \<lparr>user_id = 1, user_name = ''ada'', user_email = ''ada@example.org'',
                     user_password = ''h1''\<rparr>,
          current_password = \<lparr>data = ''secret''\<rparr>, new_password = \<lparr>data = ''''\<rparr>,
          new_password_repeat = \<lparr>data = ''''\<rparr>, name = \<lparr>data = ''ada''\<rparr>,
          email = Some \<lparr>data = ''''\<rparr>\<rparr>"]
  by simp

subsection \<open>The account form\<close>

text \<open>
  C5. The validator of the current password raises when the form has no user, raises
  with the message of the invalid password when the user's check rejects the submitted
  password, and returns when the form has a user and the check accepts the password.
  The user of the form is the object given to the constructor.
\<close>

theorem validate_current_password_cases:
  "(user form = None \<longrightarrow>
      validate_current_password is_password_valid form field
        = Inl (ValidationError ''User instance not passed to form validation''))
   \<and> (user form = Some u \<and> \<not> is_password_valid u (data field) \<longrightarrow>
      validate_current_password is_password_valid form field
        = Inl (ValidationError ''Invalid password''))
   \<and> (user form = Some u \<and> is_password_valid u (data field) \<longrightarrow>
      validate_current_password is_password_valid form field = Inr ())
   \<and> user (AccountForm_init bound obj) = obj"
  by (simp add: validate_current_password_def AccountForm_init_def)

theorem validate_current_password_cases_witness:
  "validate_current_password (\<lambda>u p. user_password u = ''hash of '' @ p)
      (AccountForm_init
         \<lparr>user = None, current_password = \<lparr>data = ''secret''\<rparr>, new_password = \<lparr>data = ''''\<rparr>,
          new_password_repeat = \<lparr>data = ''''\<rparr>, name = \<lparr>data = ''ada''\<rparr>,
          email = Some \<lparr>data = ''ada@example.org''\<rparr>\<rparr>
         None)
      \<lparr>data = ''secret''\<rparr>
     = Inl (ValidationError ''User instance not passed to form validation'')
   \<and> validate_current_password (\<lambda>u p. user_password u = ''hash of '' @ p)
      (AccountForm_init
         \<lparr>user = None, current_password = \<lparr>data = ''guess''\<rparr>, new_password = \<lparr>data = ''''\<rparr>,
          new_password_repeat = \<lparr>data = ''''\<rparr>, name = \<lparr>data = ''ada''\<rparr>,
          email = Some \<lparr>data = ''ada@example.org''\<rparr>\<rparr>
         (Some \<lparr>user_id = 1, user_name = ''ada'', user_email = ''ada@example.org'',
                user_password = ''hash of secret''\<rparr>))
      \<lparr>data = ''guess''\<rparr>
     = Inl (ValidationError ''Invalid password'')
   \<and> validate_current_password (\<lambda>u p. user_password u = ''hash of '' @ p)
      (AccountForm_init
         \<lparr>user = None, current_password = \<lparr>data = ''secret''\<rparr>, new_password = \<lparr>data = ''''\<rparr>,
          new_password_repeat = \<lparr>data = ''''\<rparr>, name = \<lparr>data = ''ada''\<rparr>,
          email = Some \<lparr>data = ''ada@example.org''\<rparr>\<rparr>
         (Some \<lparr>user_id = 1, user_name = ''ada'', user_email = ''ada@example.org'',
                user_password = ''hash of secret''\<rparr>))
      \<lparr>data = ''secret''\<rparr>
     = Inr ()"
proof -
  let ?valid = "\<lambda>u p. user_password u = ''hash of '' @ p"
  let ?ada = "\<lparr>user_id = 1, user_name = ''ada'', user_email = ''ada@example.org'',
    user_password = ''hash of secret''\<rparr>"
  let ?bound = "\<lambda>p. \<lparr>user = None, current_password = \<lparr>data = p\<rparr>, new_password = \<lparr>data = ''''\<rparr>,
    new_password_repeat = \<lparr>data = ''''\<rparr>, name = \<lparr>data = ''ada''\<rparr>,
    email = Some \<lparr>data = ''ada@example.org''\<rparr>\<rparr>"
  have none: "user (AccountForm_init (?bound p) None) = None" for p
    by (simp add: AccountForm_init_def)
  have some: "user (AccountForm_init (?bound p) (Some ?ada)) = Some ?ada" for p
    by (simp add: AccountForm_init_def)
  from validate_current_password_cases
      [of "AccountForm_init (?bound ''secret'') None" ?valid "\<lparr>data = ''secret''\<rparr>" ?ada]
    validate_current_password_cases
      [of "AccountForm_init (?bound ''guess'') (Some ?ada)" ?valid "\<lparr>data = ''guess''\<rparr>" ?ada]
    validate_current_password_cases
      [of "AccountForm_init (?bound ''secret'') (Some ?ada)" ?valid "\<lparr>data = ''secret''\<rparr>" ?ada]
    none some
  show ?thesis
    by simp
qed

text \<open>
  C1. When the new password and its repeat are both empty, neither of their validators
  raises, and what the validator of the current password returns does not depend on
  the two fields of the new password.
\<close>

theorem account_new_password_optional:
  assumes "data (new_password form) = ''''" and "data (new_password_repeat form) = ''''"
  shows "validate_new_password cfg form (new_password form) = Inr ()
    \<and> validate_new_password_repeat form (new_password_repeat form) = Inr ()
    \<and> validate_current_password is_password_valid
         (form\<lparr>new_password := p, new_password_repeat := r\<rparr>) field
       = validate_current_password is_password_valid form field"
  using assms
  by (simp add: validate_new_password_def validate_new_password_repeat_def
      validate_current_password_def Let_def)

theorem account_new_password_optional_witness:
  "validate_new_password \<lparr>MIN_PWD_LEN = 10, MAX_PWD_LEN = 500\<rparr>
      \<lparr>user = None, current_password = \<lparr>data = ''secret''\<rparr>, new_password = \<lparr>data = ''''\<rparr>,
       new_password_repeat = \<lparr>data = ''''\<rparr>, name = \<lparr>data = ''ada''\<rparr>,
       email = Some \<lparr>data = ''ada@example.org''\<rparr>\<rparr>
      \<lparr>data = ''''\<rparr>
     = Inr ()
   \<and> validate_new_password_repeat
      \<lparr>user = None, current_password = \<lparr>data = ''secret''\<rparr>, new_password = \<lparr>data = ''''\<rparr>,
       new_password_repeat = \<lparr>data = ''''\<rparr>, name = \<lparr>data = ''ada''\<rparr>,
       email = Some \<lparr>data = ''ada@example.org''\<rparr>\<rparr>
      \<lparr>data = ''''\<rparr>
     = Inr ()"
  using account_new_password_optional
    [of "\<lparr>user = None, current_password = \<lparr>data = ''secret''\<rparr>, new_password = \<lparr>data = ''''\<rparr>,
          new_password_repeat = \<lparr>data = ''''\<rparr>, name = \<lparr>data = ''ada''\<rparr>,
          email = Some \<lparr>data = ''ada@example.org''\<rparr>\<rparr>"
        "\<lparr>MIN_PWD_LEN = 10, MAX_PWD_LEN = 500\<rparr>"]
  by simp

text \<open>
  C9. When the new password is empty and its repeat is not, the validator of the new
  password does not skip: it raises the error of the empty password. Whenever the two
  fields are not both empty it is \<open>valid_password\<close> on the new password.
\<close>

theorem validate_new_password_empty_with_repeat:
  "(length (data field) = 0 \<and> length (data (new_password_repeat form)) \<noteq> 0 \<longrightarrow>
      validate_new_password cfg form field
        = Inl (ValidationError ''new password cannot be empty''))
   \<and> (\<not> (length (data field) = 0 \<and> length (data (new_password_repeat form)) = 0) \<longrightarrow>
      validate_new_password cfg form field = valid_password cfg form field)"
  by (simp add: validate_new_password_def valid_password_def)

theorem validate_new_password_empty_with_repeat_witness:
  "validate_new_password \<lparr>MIN_PWD_LEN = 10, MAX_PWD_LEN = 500\<rparr>
      \<lparr>user = None, current_password = \<lparr>data = ''secret''\<rparr>, new_password = \<lparr>data = ''''\<rparr>,
       new_password_repeat = \<lparr>data = ''a new password''\<rparr>, name = \<lparr>data = ''ada''\<rparr>,
       email = Some \<lparr>data = ''ada@example.org''\<rparr>\<rparr>
      \<lparr>data = ''''\<rparr>
     = Inl (ValidationError ''new password cannot be empty'')"
  using validate_new_password_empty_with_repeat
    [of "\<lparr>data = ''''\<rparr>"
        "\<lparr>user = None, current_password = \<lparr>data = ''secret''\<rparr>, new_password = \<lparr>data = ''''\<rparr>,
          new_password_repeat = \<lparr>data = ''a new password''\<rparr>, name = \<lparr>data = ''ada''\<rparr>,
          email = Some \<lparr>data = ''ada@example.org''\<rparr>\<rparr>"
        "\<lparr>MIN_PWD_LEN = 10, MAX_PWD_LEN = 500\<rparr>"]
  by simp

text \<open>
  C10. The validator of the repeated new password is the same function as the simpler
  validator that skips when both fields are empty and otherwise rejects a repeat that
  differs from the new password, and its result does not change with the email
  attribute of the form: when both fields are empty they are equal, so the comparison
  that follows the test of the email returns as the early return does.
\<close>

theorem validate_new_password_repeat_refines:
  "validate_new_password_repeat form field = new_password_repeat_spec form field
   \<and> validate_new_password_repeat (form\<lparr>email := e\<rparr>) field
       = validate_new_password_repeat form field"
  by (auto simp: validate_new_password_repeat_def new_password_repeat_spec_def Let_def)

end
